theory Spec2Isabelle
  imports Complex_Main "HOL-Library.Sublist"
begin

section \<open>Python values\<close>

text \<open>
  A Python \<open>str\<close> is a sequence of code points, so \<open>len\<close> counts code points and
  \<open>in\<close> is the contiguous-substring test. The rupee sign of the price pattern is the code
  point U+20B9. \<open>str\<close> turns an ASCII literal of the source into such a sequence.

  Python integers are unbounded, as \<open>int\<close> is.
\<close>

type_synonym pystr = "nat list"

definition str :: "string \<Rightarrow> pystr" where
  "str s = map of_char s"

definition rupee :: nat where
  "rupee = 8377"

text \<open>\<open>s.startswith(p)\<close> and \<open>p in s\<close>.\<close>

fun startswith :: "pystr \<Rightarrow> pystr \<Rightarrow> bool" where
  "startswith s [] = True"
| "startswith [] (p # ps) = False"
| "startswith (c # cs) (p # ps) = (c = p \<and> startswith cs ps)"

fun contains :: "pystr \<Rightarrow> pystr \<Rightarrow> bool" where
  "contains [] p = (p = [])"
| "contains (c # cs) p = (startswith (c # cs) p \<or> contains cs p)"

text \<open>
  \<open>s.lower()\<close>. The letters A to Z are mapped to a to z. Two characters outside ASCII
  have a lowercase with an ASCII letter in it: the Kelvin sign U+212A becomes \<open>k\<close>, and
  the dotted capital I U+0130 becomes \<open>i\<close> followed by the combining dot U+0307. Every
  other cased character outside ASCII has one character outside ASCII as its lowercase
  and is left as it is here. The code looks only for ASCII keywords in a lowercased text,
  and these tests have the same result on the text as Python lowercases it and on the
  text as \<open>lower\<close> gives it.
\<close>

definition lower_char :: "nat \<Rightarrow> pystr" where
  "lower_char c =
     (if 65 \<le> c \<and> c \<le> 90 then [c + 32]
      else if c = 8490 then [107]
      else if c = 304 then [105, 775]
      else [c])"

definition lower :: "pystr \<Rightarrow> pystr" where
  "lower s = concat (map lower_char s)"

text \<open>\<open>' '.join(xs)\<close>.\<close>

fun join_space :: "pystr list \<Rightarrow> pystr" where
  "join_space [] = []"
| "join_space [x] = x"
| "join_space (x # y # ys) = x @ [32] @ join_space (y # ys)"

text \<open>\<open>xs[-n:]\<close> for a positive \<open>n\<close>: the last \<open>n\<close> elements, all of them when there are fewer.\<close>

definition last_n :: "nat \<Rightarrow> 'a list \<Rightarrow> 'a list" where
  "last_n n xs = drop (length xs - n) xs"

text \<open>\<open>any(k in s for k in keywords)\<close> and \<open>sum(1 for k in keywords if k in s)\<close>.\<close>

definition any_in :: "pystr list \<Rightarrow> pystr \<Rightarrow> bool" where
  "any_in keywords s = list_ex (\<lambda>k. contains s k) keywords"

definition count_in :: "pystr list \<Rightarrow> pystr \<Rightarrow> nat" where
  "count_in keywords s = length (filter (\<lambda>k. contains s k) keywords)"

text \<open>
  A Python float is an IEEE 754 binary64 number. A finite float is modelled by the real
  number that it stands for, and an operation of the code on floats by the exact
  operation on the reals followed by the rounding \<open>fl\<close> to the nearest float, a tie going
  to the float with the even significand. So the literal \<open>0.3\<close> of the source is
  \<open>fl 0.3\<close>, the product \<open>a * b\<close> of two floats is \<open>fl (a * b)\<close>, and an integer that
  meets a float in an operation is first converted: \<open>fl (real_of_int i)\<close>. The quotient
  \<open>i / j\<close> of two integers is the exact quotient rounded once. A comparison is exact,
  also between an integer and a float.

  \<open>fl x\<close> scales the magnitude of \<open>x\<close> by a power of two into the range from \<open>2 ^ 52\<close> up
  to \<open>2 ^ 53\<close>, where the floats are the integers, rounds it there and scales it back;
  the exponent never goes below -1074, the exponent of the subnormal floats. The search
  for the exponent is a loop that doubles or halves at most 2200 times, more than any
  float needs. A result of magnitude \<open>2 ^ 1024\<close> or more is an infinity for Python and has
  no real number to stand for it: the model is of the operations whose results are
  finite, as they are for all prices and counts below \<open>10 ^ 300\<close>.
\<close>

definition round_half_even :: "real \<Rightarrow> int" where
  "round_half_even x =
     (let f = \<lfloor>x\<rfloor>; r = x - real_of_int f
      in if r < 1 / 2 then f
         else if 1 / 2 < r then f + 1
         else if even f then f else f + 1)"

fun normalise :: "nat \<Rightarrow> real \<Rightarrow> int \<Rightarrow> real \<times> int" where
  "normalise 0 m e = (m, e)"
| "normalise (Suc n) m e =
     (if m < 2 ^ 52 then normalise n (2 * m) (e - 1)
      else if 2 ^ 53 \<le> m then normalise n (m / 2) (e + 1)
      else (m, e))"

definition float_exponent :: "real \<Rightarrow> int" where
  "float_exponent x = max (snd (normalise 2200 \<bar>x\<bar> 0)) (- 1074)"

definition fl :: "real \<Rightarrow> real" where
  "fl x =
     (if x = 0 then 0
      else (let e = float_exponent x
            in sgn x * real_of_int (round_half_even (\<bar>x\<bar> / 2 powi e)) * 2 powi e))"

text \<open>\<open>float(i)\<close> of an integer, and \<open>sum(xs)\<close> of floats: from 0, left to right.\<close>

definition float_of_int :: "int \<Rightarrow> real" where
  "float_of_int i = fl (real_of_int i)"

definition float_sum :: "real list \<Rightarrow> real" where
  "float_sum xs = foldl (\<lambda>acc x. fl (acc + x)) 0 xs"

text \<open>\<open>int(x)\<close> of a float truncates towards zero.\<close>

definition py_int :: "real \<Rightarrow> int" where
  "py_int x = (if 0 \<le> x then \<lfloor>x\<rfloor> else \<lceil>x\<rceil>)"

text \<open>
  The exceptions that the modelled code raises. A \<open>KeyError\<close> carries the key that was
  missing, the others carry their message. \<open>str(e)\<close> is the message, and for a \<open>KeyError\<close>
  the \<open>repr\<close> of the key: the key between single quotes. (For a key with a quote, a
  backslash or an unprintable character in it Python writes escapes; the keys that the
  modelled code can miss are \<open>start_time\<close> and session ids.)
\<close>

datatype exn =
    TypeError pystr
  | KeyError pystr
  | ValueError pystr
  | ZeroDivisionError pystr
  | OtherError pystr


section \<open>The price pattern\<close>

text \<open>
  \<open>re.findall(r'R[\s,]*(\d+(?:,\d+)*)', text)\<close>, where \<open>R\<close> stands for the rupee
  sign of the source: the texts of the capture group of the successive non-overlapping
  matches, left to right. A match starts at a rupee sign, skips white space and commas,
  and then takes digits, going on over a comma only when a digit follows it. The scanner
  reads the text once; its state says how far the current match has come.

  On a \<open>str\<close> the classes \<open>\s\<close> and \<open>\d\<close> are those of Unicode: \<open>\s\<close> is the white space
  of \<open>str.isspace\<close>, and \<open>\d\<close> is a decimal digit of any script (category Nd). The
  decimal digits come in runs of ten, from the zero of a script to its nine;
  \<open>digit_zeros\<close> lists the zeros of Unicode 14.0, the version of Python 3.11.
\<close>

definition is_space :: "nat \<Rightarrow> bool" where
  "is_space c =
     ((9 \<le> c \<and> c \<le> 13) \<or> (28 \<le> c \<and> c \<le> 32) \<or> c = 133 \<or> c = 160 \<or> c = 5760
      \<or> (8192 \<le> c \<and> c \<le> 8202) \<or> c = 8232 \<or> c = 8233 \<or> c = 8239 \<or> c = 8287
      \<or> c = 12288)"

definition digit_zeros :: "nat list" where
  "digit_zeros =
     [48, 1632, 1776, 1984, 2406, 2534, 2662, 2790, 2918, 3046, 3174, 3302, 3430, 3558,
      3664, 3792, 3872, 4160, 4240, 6112, 6160, 6470, 6608, 6784, 6800, 6992, 7088, 7232,
      7248, 42528, 43216, 43264, 43472, 43504, 43600, 44016, 65296, 66720, 68912, 69734,
      69872, 69942, 70096, 70384, 70736, 70864, 71248, 71360, 71472, 71904, 72016, 72784,
      73040, 73120, 92768, 92864, 93008, 120782, 120792, 120802, 120812, 120822, 123200,
      123632, 125264, 130032]"

text \<open>The zero of the run of digits that a character belongs to, if it is a digit.\<close>

definition digit_zero :: "nat \<Rightarrow> nat option" where
  "digit_zero c =
     (if c < 128 then (if 48 \<le> c \<and> c \<le> 57 then Some 48 else None)
      else find (\<lambda>z. z \<le> c \<and> c < z + 10) digit_zeros)"

definition is_digit :: "nat \<Rightarrow> bool" where
  "is_digit c = (digit_zero c \<noteq> None)"

definition digit_value :: "nat \<Rightarrow> nat" where
  "digit_value c = (case digit_zero c of None \<Rightarrow> 0 | Some z \<Rightarrow> c - z)"

datatype scan_state =
    Outside
  | Skipping
  | Digits pystr
  | AfterComma pystr

fun findall_prices_from :: "scan_state \<Rightarrow> pystr \<Rightarrow> pystr list" where
  "findall_prices_from Outside [] = []"
| "findall_prices_from Skipping [] = []"
| "findall_prices_from (Digits acc) [] = [acc]"
| "findall_prices_from (AfterComma acc) [] = [acc]"
| "findall_prices_from Outside (c # cs) =
     (if c = rupee then findall_prices_from Skipping cs else findall_prices_from Outside cs)"
| "findall_prices_from Skipping (c # cs) =
     (if is_space c \<or> c = 44 then findall_prices_from Skipping cs
      else if is_digit c then findall_prices_from (Digits [c]) cs
      else if c = rupee then findall_prices_from Skipping cs
      else findall_prices_from Outside cs)"
| "findall_prices_from (Digits acc) (c # cs) =
     (if is_digit c then findall_prices_from (Digits (acc @ [c])) cs
      else if c = 44 then findall_prices_from (AfterComma acc) cs
      else if c = rupee then acc # findall_prices_from Skipping cs
      else acc # findall_prices_from Outside cs)"
| "findall_prices_from (AfterComma acc) (c # cs) =
     (if is_digit c then findall_prices_from (Digits (acc @ [44, c])) cs
      else if c = rupee then acc # findall_prices_from Skipping cs
      else acc # findall_prices_from Outside cs)"

definition findall_prices :: "pystr \<Rightarrow> pystr list" where
  "findall_prices text = findall_prices_from Outside text"

text \<open>
  \<open>int(p.replace(',', ''))\<close> on a text of digits and commas, as the pattern captures it:
  \<open>int\<close> reads the digits of every script. (Python 3.11 refuses a text of more than 4300
  digits with a \<open>ValueError\<close>; the model is of the shorter ones.)
\<close>

definition parse_price :: "pystr \<Rightarrow> int" where
  "parse_price p =
     int (foldl (\<lambda>n c. 10 * n + digit_value c) 0 (filter (\<lambda>c. c \<noteq> 44) p))"

definition message_prices :: "pystr \<Rightarrow> int list" where
  "message_prices text = map parse_price (findall_prices text)"

section \<open>The data model\<close>

text \<open>
  Modelled from the spec: the module \<open>models\<close> (ChatMessage, Product, NegotiationParams,
  NegotiationSession) is not among the sources. The records below have the fields that the
  code reads and writes, with the types of spec section 3 and of the type hints of the
  code: prices are integers; a time stamp is a number of seconds. The identifiers of a
  message (\<open>id\<close>, \<open>session_id\<close>) are never read and are left out.
\<close>

record chat_message =
  sender :: pystr
  content :: pystr
  timestamp :: real
  sender_type :: pystr

record product =
  price :: int
  category :: pystr

record negotiation_params =
  params_target_price :: int
  params_max_budget :: int
  approach :: pystr
  timeline :: pystr

record negotiation_session =
  user_params :: negotiation_params
  status :: pystr
  created_at :: real
  messages :: "chat_message list"
  outcome :: "pystr option"
  ended_at :: "real option"
  final_price :: "int option"

text \<open>The enumerations of \<open>negotiation_engine.py\<close> and \<open>session_manager.py\<close>.\<close>

datatype negotiation_phase = OPENING | EXPLORATION | BARGAINING | CLOSING | DEADLOCK

datatype seller_personality = FLEXIBLE | FIRM | EAGER | HESITANT | AGGRESSIVE

datatype negotiation_tactic =
  ANCHORING | SCARCITY | BUNDLING | RECIPROCITY | AUTHORITY | SOCIAL_PROOF | COMMITMENT | URGENCY

datatype session_outcome =
  SUCCESS | FAILED_PRICE | FAILED_TERMS | SELLER_UNRESPONSIVE | USER_CANCELLED | TECHNICAL_ERROR


fun phase_value :: "negotiation_phase \<Rightarrow> pystr" where
  "phase_value OPENING = str ''opening''"
| "phase_value EXPLORATION = str ''exploration''"
| "phase_value BARGAINING = str ''bargaining''"
| "phase_value CLOSING = str ''closing''"
| "phase_value DEADLOCK = str ''deadlock''"

fun personality_value :: "seller_personality \<Rightarrow> pystr" where
  "personality_value FLEXIBLE = str ''flexible''"
| "personality_value FIRM = str ''firm''"
| "personality_value EAGER = str ''eager''"
| "personality_value HESITANT = str ''hesitant''"
| "personality_value AGGRESSIVE = str ''aggressive''"

fun outcome_value :: "session_outcome \<Rightarrow> pystr" where
  "outcome_value SUCCESS = str ''success''"
| "outcome_value FAILED_PRICE = str ''failed_price''"
| "outcome_value FAILED_TERMS = str ''failed_terms''"
| "outcome_value SELLER_UNRESPONSIVE = str ''seller_unresponsive''"
| "outcome_value USER_CANCELLED = str ''user_cancelled''"
| "outcome_value TECHNICAL_ERROR = str ''technical_error''"


text \<open>
  The dictionaries of the code are records; a key that a dictionary may lack is an
  optional field, and \<open>d.get(key, default)\<close> reads it with the default.

  \<open>session_data\<close> is the dictionary that the session manager keeps for a session. The
  decision engine reads the keys \<open>target_price\<close> and \<open>max_budget\<close> of it with the
  default 0. No session data that the code builds has these two keys:
  \<open>create_session_from_url\<close> keeps the target and the budget in the strategy and in the
  parameters of the session. Of the strategy only the talking points and the budget reach
  the modelled code, and only through the text composer, so the strategy is not a field
  here.
\<close>

record performance_metrics =
  messages_sent :: nat
  negotiation_effectiveness :: real
  time_to_first_response :: "real option"
  confidence_history :: "real list"

record session_data =
  session :: negotiation_session
  session_product :: product
  target_price :: "int option"
  max_budget :: "int option"
  current_phase :: pystr
  intervention_triggers :: "(pystr \<times> real \<times> nat) list"
  metrics :: performance_metrics
  start_time :: "real option"

record price_movement =
  current_price :: "int option"
  previous_prices :: "int list"
  trend :: pystr
  concession_amount :: int

record response_pattern =
  avg_response_time :: "real option"
  avg_message_length :: "real option"
  consistency :: pystr

record seller_analysis =
  sentiment :: pystr
  flexibility_score :: "real option"
  urgency_level :: "pystr option"
  personality :: "pystr option"
  price_analysis :: "price_movement option"
  objections :: "pystr list option"
  buying_signals :: "pystr list"
  pattern :: response_pattern
  message_length :: nat
  politeness_score :: real

record decision =
  action :: "pystr option"
  offer :: "int option"
  confidence :: "real option"
  reasoning :: "pystr option"

text \<open>\<open>seller_analysis.get('flexibility_score', 0.5)\<close>.\<close>

definition get_flexibility :: "seller_analysis \<Rightarrow> real" where
  "get_flexibility sa = (case flexibility_score sa of None \<Rightarrow> fl 0.5 | Some f \<Rightarrow> f)"

section \<open>The decision engine\<close>

text \<open>\<open>DecisionEngine._calculate_counter_offer\<close>.\<close>

definition calculate_counter_offer ::
  "int \<Rightarrow> int \<Rightarrow> seller_analysis \<Rightarrow> negotiation_phase \<Rightarrow> int" where
  "calculate_counter_offer cur target sa phase =
     (let flexibility = get_flexibility sa;
          price_gap = cur - target;
          increment =
            (if phase = OPENING then
               py_int (fl (fl (float_of_int price_gap * fl 0.3) * flexibility))
             else if phase = BARGAINING then
               py_int (fl (fl (float_of_int price_gap * fl 0.4) * flexibility))
             else py_int (fl (fl (float_of_int price_gap * fl 0.6) * flexibility)));
          new_offer = target + increment
      in min new_offer (cur - 1000))"

text \<open>
  The price that \<open>DecisionEngine.make_decision\<close> decides on: the price extracted from the
  seller's message, \<open>seller_analysis.get('price_analysis', {}).get('current_price')\<close>, and
  the listed price of the product when that is \<open>None\<close> or 0 (\<open>if not current_price\<close>).
\<close>

definition extracted_price :: "seller_analysis \<Rightarrow> int option" where
  "extracted_price sa =
     (case price_analysis sa of None \<Rightarrow> None | Some pa \<Rightarrow> current_price pa)"

definition effective_price :: "seller_analysis \<Rightarrow> product \<Rightarrow> int" where
  "effective_price sa item =
     (case extracted_price sa of
        None \<Rightarrow> price item
      | Some p \<Rightarrow> if p = 0 then price item else p)"

text \<open>\<open>DecisionEngine.make_decision\<close>.\<close>

definition make_decision ::
  "session_data \<Rightarrow> seller_analysis \<Rightarrow> negotiation_phase \<Rightarrow> product \<Rightarrow> decision" where
  "make_decision sd sa phase item =
     (let target = (case target_price sd of None \<Rightarrow> 0 | Some t \<Rightarrow> t);
          budget = (case max_budget sd of None \<Rightarrow> 0 | Some b \<Rightarrow> b);
          cur = effective_price sa item
      in if cur \<le> target then
           \<lparr>action = Some (str ''accept''), offer = None, confidence = Some (fl 0.9),
            reasoning = Some (str ''Price within target range'')\<rparr>
         else if cur \<le> budget then
           (if get_flexibility sa > fl 0.6 then
              \<lparr>action = Some (str ''counter_offer''),
               offer = Some (calculate_counter_offer cur target sa phase),
               confidence = Some (fl 0.7),
               reasoning = Some (str ''Seller shows flexibility, room for negotiation'')\<rparr>
            else if real_of_int cur < fl (float_of_int budget * fl 0.95) then
              \<lparr>action = Some (str ''accept_with_conditions''), offer = None,
               confidence = Some (fl 0.6),
               reasoning = Some (str ''Close to budget limit, try to add value'')\<rparr>
            else
              \<lparr>action = Some (str ''continue''), offer = None, confidence = Some (fl 0.5),
               reasoning = Some (str ''Gather more information'')\<rparr>)
         else if get_flexibility sa > fl 0.7 then
           \<lparr>action = Some (str ''final_offer''),
            offer = Some (min budget (py_int (fl (float_of_int target * fl 1.1)))),
            confidence = Some (fl 0.4),
            reasoning = Some (str ''Last attempt before walking away'')\<rparr>
         else
           \<lparr>action = Some (str ''walk_away''), offer = None, confidence = Some (fl 0.8),
            reasoning = Some (str ''Price too high, seller inflexible'')\<rparr>)"

section \<open>The conversation analyzer\<close>

text \<open>The keyword tables of \<open>ConversationAnalyzer.__init__\<close> that the code reads.\<close>

definition sentiment_positive :: "pystr list" where
  "sentiment_positive = map str [''good'', ''excellent'', ''perfect'', ''great'', ''wonderful'',
     ''yes'', ''sure'', ''okay'']"

definition sentiment_negative :: "pystr list" where
  "sentiment_negative = map str [''no'', ''cannot'', ''impossible'', ''never'', ''refuse'',
     ''reject'']"

definition flexibility_high :: "pystr list" where
  "flexibility_high = map str [''negotiate'', ''flexible'', ''consider'', ''discuss'', ''maybe'',
     ''perhaps'']"

definition flexibility_low :: "pystr list" where
  "flexibility_low = map str [''firm'', ''fixed'', ''final'', ''non-negotiable'', ''minimum'',
     ''cannot'']"

definition urgency_high :: "pystr list" where
  "urgency_high = map str [''urgent'', ''immediately'', ''today'', ''asap'', ''quick'']"

definition urgency_low :: "pystr list" where
  "urgency_low = map str [''whenever'', ''no rush'', ''flexible'', ''anytime'']"

text \<open>\<open>_analyze_sentiment\<close>, on the lowercased message.\<close>

definition analyze_sentiment :: "pystr \<Rightarrow> pystr" where
  "analyze_sentiment message =
     (let positive_count = count_in sentiment_positive message;
          negative_count = count_in sentiment_negative message
      in if positive_count > negative_count then str ''positive''
         else if negative_count > positive_count then str ''negative''
         else str ''neutral'')"

text \<open>\<open>_count_price_concessions\<close> is a placeholder that returns 0.\<close>

definition count_price_concessions :: "chat_message list \<Rightarrow> nat" where
  "count_price_concessions chat_history = 0"

text \<open>\<open>_assess_flexibility\<close>.\<close>

definition assess_flexibility :: "pystr \<Rightarrow> chat_message list \<Rightarrow> real" where
  "assess_flexibility message chat_history =
     (let high_flex_count = count_in flexibility_high message;
          low_flex_count = count_in flexibility_low message;
          s0 = fl 0.5;
          s1 = (if high_flex_count > 0
                then fl (s0 + fl (fl 0.2 * float_of_int (int high_flex_count))) else s0);
          s2 = (if low_flex_count > 0
                then fl (s1 - fl (fl 0.3 * float_of_int (int low_flex_count))) else s1);
          price_concessions = count_price_concessions chat_history;
          s3 = (if price_concessions > 0
                then fl (s2 + fl (fl 0.1 * float_of_int (int price_concessions))) else s2)
      in max 0 (min 1 s3))"

text \<open>\<open>_detect_urgency\<close>.\<close>

definition detect_urgency :: "pystr \<Rightarrow> pystr" where
  "detect_urgency message =
     (let high_urgency = count_in urgency_high message;
          low_urgency = count_in urgency_low message
      in if high_urgency > 0 then str ''high''
         else if low_urgency > 0 then str ''low''
         else str ''medium'')"

text \<open>The messages of the seller in a history, and the sum of their lengths.\<close>

definition seller_messages :: "chat_message list \<Rightarrow> chat_message list" where
  "seller_messages chat_history = filter (\<lambda>msg. sender msg = str ''seller'') chat_history"

definition total_length :: "chat_message list \<Rightarrow> nat" where
  "total_length msgs = sum_list (map (\<lambda>msg. length (content msg)) msgs)"

text \<open>\<open>_infer_personality\<close>.\<close>

definition infer_personality :: "pystr \<Rightarrow> chat_message list \<Rightarrow> seller_personality" where
  "infer_personality message chat_history =
     (let avg_response_length =
            fl (real (total_length (seller_messages chat_history))
                  / real (max 1 (length (seller_messages chat_history))))
      in if contains message (str ''firm'') \<or> contains message (str ''final'')
            \<or> contains message (str ''non-negotiable'') then FIRM
         else if contains message (str ''flexible'') \<or> contains message (str ''negotiate'')
           then FLEXIBLE
         else if contains message (str ''quick'') \<or> contains message (str ''urgent'')
            \<or> avg_response_length < 50 then EAGER
         else if avg_response_length > 150 then HESITANT
         else FLEXIBLE)"

text \<open>\<open>_analyze_price_movement\<close>, on the message as the seller wrote it.\<close>

definition analyze_price_movement :: "pystr \<Rightarrow> chat_message list \<Rightarrow> price_movement" where
  "analyze_price_movement message chat_history =
     (let prices = findall_prices message
      in if prices \<noteq> [] then
           (let cur = parse_price (last prices);
                previous = concat (map (\<lambda>msg. message_prices (content msg))
                                       (seller_messages chat_history));
                tr = (if previous \<noteq> [] then
                        (if cur < last previous then str ''decreasing''
                         else if cur > last previous then str ''increasing''
                         else str ''stable'')
                      else str ''stable'')
            in \<lparr>current_price = Some cur, previous_prices = previous, trend = tr,
                concession_amount = (if previous \<noteq> [] then last previous - cur else 0)\<rparr>)
         else \<lparr>current_price = None, previous_prices = [], trend = str ''stable'',
               concession_amount = 0\<rparr>)"

text \<open>
  \<open>_identify_objections\<close> and \<open>_detect_buying_signals\<close>: the tags of the patterns of which
  a keyword occurs in the message, in the order of the table.
\<close>

definition matching_tags :: "(pystr \<times> pystr list) list \<Rightarrow> pystr \<Rightarrow> pystr list" where
  "matching_tags patterns message =
     map fst (filter (\<lambda>(tag, keywords). any_in keywords message) patterns)"

definition objection_patterns :: "(pystr \<times> pystr list) list" where
  "objection_patterns =
     [(str ''price_too_low'',
         map str [''too low'', ''not enough'', ''cannot accept'', ''minimum'']),
      (str ''condition_concerns'', map str [''condition'', ''wear'', ''damage'', ''issue'']),
      (str ''timing_issues'', map str [''time'', ''when'', ''schedule'', ''availability'']),
      (str ''trust_concerns'', map str [''trust'', ''verify'', ''proof'', ''guarantee''])]"

definition signal_patterns :: "(pystr \<times> pystr list) list" where
  "signal_patterns =
     [(str ''price_acceptance'', map str [''okay'', ''fine'', ''accept'', ''deal'']),
      (str ''logistics_discussion'',
         map str [''when'', ''where'', ''pickup'', ''delivery'', ''meet'']),
      (str ''payment_discussion'', map str [''payment'', ''cash'', ''transfer'', ''money'']),
      (str ''urgency_to_sell'', map str [''urgent'', ''immediately'', ''quick sale''])]"

definition identify_objections :: "pystr \<Rightarrow> pystr list" where
  "identify_objections message = matching_tags objection_patterns message"

definition detect_buying_signals :: "pystr \<Rightarrow> pystr list" where
  "detect_buying_signals message = matching_tags signal_patterns message"

text \<open>\<open>_assess_politeness\<close>.\<close>

definition assess_politeness :: "pystr \<Rightarrow> real" where
  "assess_politeness message =
     (let polite_count = count_in (map str [''please'', ''thank'', ''sorry'', ''appreciate'',
            ''understand'', ''respect'']) message;
          rude_count = count_in (map str [''no way'', ''impossible'', ''ridiculous'',
            ''waste'']) message;
          s0 = fl 0.6;
          s1 = fl (s0 + fl (fl 0.1 * float_of_int (int polite_count)));
          s2 = fl (s1 - fl (fl 0.2 * float_of_int (int rude_count)))
      in max 0 (min 1 s2))"

text \<open>
  \<open>_analyze_response_pattern\<close>: the time between consecutive messages of the seller, each
  the \<open>total_seconds()\<close> of the difference of two time stamps, a float.
\<close>

fun time_differences :: "chat_message list \<Rightarrow> real list" where
  "time_differences (a # b # ms) =
     fl (timestamp b - timestamp a) # time_differences (b # ms)"
| "time_differences ms = []"

definition analyze_response_pattern :: "chat_message list \<Rightarrow> response_pattern" where
  "analyze_response_pattern chat_history =
     (let sms = seller_messages chat_history
      in if length sms < 2 then
           \<lparr>avg_response_time = None, avg_message_length = None, consistency = str ''unknown''\<rparr>
         else
           (let avg_length = fl (real (total_length sms) / real (length sms));
                response_times = time_differences sms
            in \<lparr>avg_response_time =
                  (if response_times \<noteq> []
                   then Some (fl (float_sum response_times
                                    / float_of_int (int (length response_times))))
                   else None),
                avg_message_length = Some avg_length,
                consistency = (if avg_length > 30 then str ''consistent'' else str ''brief'')\<rparr>))"

text \<open>
  \<open>ConversationAnalyzer.analyze_seller_message\<close>. The session data is an argument that
  the analysis never reads.
\<close>

definition analyze_seller_message ::
  "pystr \<Rightarrow> chat_message list \<Rightarrow> session_data \<Rightarrow> seller_analysis" where
  "analyze_seller_message message chat_history sd =
     (let message_lower = lower message
      in \<lparr>sentiment = analyze_sentiment message_lower,
          flexibility_score = Some (assess_flexibility message_lower chat_history),
          urgency_level = Some (detect_urgency message_lower),
          personality = Some (personality_value (infer_personality message_lower chat_history)),
          price_analysis = Some (analyze_price_movement message chat_history),
          objections = Some (identify_objections message_lower),
          buying_signals = detect_buying_signals message_lower,
          pattern = analyze_response_pattern chat_history,
          message_length = length message,
          politeness_score = assess_politeness message_lower\<rparr>)"

section \<open>The phase of the negotiation\<close>

text \<open>\<open>AdvancedNegotiationEngine._determine_negotiation_phase\<close>.\<close>

definition closing_keywords :: "pystr list" where
  "closing_keywords = map str [''deal'', ''final'', ''accept'', ''agree'', ''done'', ''sold'']"

definition price_mentioned :: "chat_message list \<Rightarrow> bool" where
  "price_mentioned chat_history =
     list_ex (\<lambda>msg. contains (lower (content msg)) (str ''price'') \<or> contains (content msg) [rupee])
       (last_n 3 chat_history)"

definition determine_negotiation_phase ::
  "chat_message list \<Rightarrow> seller_analysis \<Rightarrow> negotiation_phase" where
  "determine_negotiation_phase chat_history sa =
     (let message_count = length chat_history
      in if message_count \<le> 2 then OPENING
         else
           (let recent_messages = map (\<lambda>msg. lower (content msg)) (last_n 3 chat_history)
            in if any_in closing_keywords (join_space recent_messages) then CLOSING
               else if get_flexibility sa < fl 0.2 \<and> message_count > 6 then DEADLOCK
               else if price_mentioned chat_history \<and> message_count > 3 then BARGAINING
               else EXPLORATION))"

section \<open>The strategy selector\<close>

text \<open>
  \<open>StrategySelector.tactic_effectiveness\<close>, read with
  \<open>tactic_effectiveness.get(tactic, {}).get(personality, 0.5)\<close>: a tactic or a personality
  that the table lacks has the effectiveness 0.5.
\<close>

definition tactic_effectiveness :: "(negotiation_tactic \<times> (pystr \<times> real) list) list" where
  "tactic_effectiveness =
     [(ANCHORING,
         [(str ''flexible'', fl 0.8), (str ''firm'', fl 0.4), (str ''eager'', fl 0.9)]),
      (SCARCITY,
         [(str ''flexible'', fl 0.6), (str ''firm'', fl 0.3), (str ''eager'', fl 0.9)]),
      (BUNDLING,
         [(str ''flexible'', fl 0.7), (str ''firm'', fl 0.5), (str ''eager'', fl 0.6)]),
      (URGENCY,
         [(str ''flexible'', fl 0.5), (str ''firm'', fl 0.2), (str ''eager'', fl 0.8)])]"

definition effectiveness :: "negotiation_tactic \<Rightarrow> pystr \<Rightarrow> real" where
  "effectiveness tactic pers =
     (case map_of tactic_effectiveness tactic of
        None \<Rightarrow> fl 0.5
      | Some row \<Rightarrow> (case map_of row pers of None \<Rightarrow> fl 0.5 | Some e \<Rightarrow> e))"

text \<open>The first part of \<open>StrategySelector.select_tactics\<close>: the tactics of the phase.\<close>

definition phase_tactics :: "seller_analysis \<Rightarrow> negotiation_phase \<Rightarrow> negotiation_tactic list" where
  "phase_tactics sa phase =
     (if phase = OPENING then
        [ANCHORING] @ (if urgency_level sa = Some (str ''high'') then [URGENCY] else [])
      else if phase = BARGAINING then
        (if get_flexibility sa > fl 0.6 then [RECIPROCITY] else [])
        @ (if str ''price_too_low'' \<in> set (case objections sa of None \<Rightarrow> [] | Some os \<Rightarrow> os)
           then [SOCIAL_PROOF] else [])
      else if phase = CLOSING then
        [COMMITMENT] @ (if urgency_level sa = Some (str ''high'') then [SCARCITY] else [])
      else if phase = DEADLOCK then [BUNDLING, AUTHORITY]
      else [])"

text \<open>\<open>StrategySelector.select_tactics\<close>; the decision and the session data are not read.\<close>

definition select_tactics ::
  "decision \<Rightarrow> seller_analysis \<Rightarrow> negotiation_phase \<Rightarrow> session_data \<Rightarrow> negotiation_tactic list"
  where
  "select_tactics d sa phase sd =
     (let pers = (case personality sa of None \<Rightarrow> str ''flexible'' | Some p \<Rightarrow> p);
          tactics = phase_tactics sa phase;
          effective_tactics = filter (\<lambda>tactic. effectiveness tactic pers > fl 0.4) tactics
      in take 3 effective_tactics)"

section \<open>The response generator and the turn of the engine\<close>

text \<open>
  The prose of a reply is composed by \<open>_generate_walkaway_response\<close>,
  \<open>_generate_enhanced_tactical_response\<close> and \<open>_generate_enhanced_exploratory_response\<close>,
  which draw templates with \<open>random.choice\<close>. The spec puts the composition of text out of
  scope, so these three are parameters here: a composer gives the text, or the exception
  that the composition raised. A second run of the same turn may meet another composer.
\<close>

record text_composer =
  walkaway_response :: "seller_analysis \<Rightarrow> session_data \<Rightarrow> exn + pystr"
  tactical_response ::
    "decision \<Rightarrow> negotiation_tactic list \<Rightarrow> seller_analysis \<Rightarrow> session_data \<Rightarrow> product
       \<Rightarrow> exn + pystr"
  exploratory_response :: "seller_analysis \<Rightarrow> session_data \<Rightarrow> exn + pystr"

text \<open>
  \<open>ResponseGenerator.generate_strategic_response\<close>. The class defines
  \<open>_generate_acceptance_response\<close> twice; the later definition, with the two parameters
  \<open>seller_analysis\<close> and \<open>session_data\<close>, is the one the class keeps, and the call for
  the action \<open>accept\<close> passes three arguments to it: a \<open>TypeError\<close>.
\<close>

definition generate_strategic_response ::
  "text_composer \<Rightarrow> decision \<Rightarrow> negotiation_tactic list \<Rightarrow> seller_analysis \<Rightarrow> session_data
     \<Rightarrow> product \<Rightarrow> exn + pystr" where
  "generate_strategic_response tc d tactics sa sd item =
     (let act = (case action d of None \<Rightarrow> str ''continue'' | Some a \<Rightarrow> a)
      in if act = str ''accept'' then
           Inl (TypeError (str ''_generate_acceptance_response() takes 3 positional arguments but 4 were given''))
         else if act = str ''walk_away'' then walkaway_response tc sa sd
         else if act = str ''counter_offer'' \<or> act = str ''final_offer'' then
           tactical_response tc d tactics sa sd item
         else exploratory_response tc sa sd)"

record turn_result =
  response :: pystr
  turn_decision :: decision
  tactics_used :: "negotiation_tactic list"
  turn_analysis :: "seller_analysis option"
  turn_phase :: pystr
  turn_confidence :: real

text \<open>The result that the \<open>except\<close> branch of \<open>process_negotiation_turn\<close> returns.\<close>

definition fallback_turn :: turn_result where
  "fallback_turn =
     \<lparr>response = str ''I understand. Let me think about your offer and get back to you.'',
      turn_decision = \<lparr>action = Some (str ''pause''), offer = None,
                       confidence = Some (fl 0.5),
                       reasoning = None\<rparr>,
      tactics_used = [],
      turn_analysis = None,
      turn_phase = str ''exploration'',
      turn_confidence = fl 0.5\<rparr>"

text \<open>
  The first three steps of \<open>process_negotiation_turn\<close>: the analysis of the message, the
  phase and the decision.
\<close>

definition analyze_and_decide ::
  "session_data \<Rightarrow> pystr \<Rightarrow> chat_message list \<Rightarrow> product
     \<Rightarrow> seller_analysis \<times> negotiation_phase \<times> decision" where
  "analyze_and_decide sd seller_message chat_history item =
     (let sa = analyze_seller_message seller_message chat_history sd;
          phase = determine_negotiation_phase chat_history sa;
          d = make_decision sd sa phase item
      in (sa, phase, d))"

text \<open>
  \<open>AdvancedNegotiationEngine.process_negotiation_turn\<close>: the five steps in a \<open>try\<close>, and
  the fallback for every \<open>Exception\<close>. On records of the right types the first four steps
  raise nothing, so the exception, if any, is the one of the response generator.
\<close>

definition process_negotiation_turn ::
  "text_composer \<Rightarrow> session_data \<Rightarrow> pystr \<Rightarrow> chat_message list \<Rightarrow> product \<Rightarrow> turn_result"
  where
  "process_negotiation_turn tc sd seller_message chat_history item =
     (case analyze_and_decide sd seller_message chat_history item of
        (sa, phase, d) \<Rightarrow>
          (let tactics = select_tactics d sa phase sd
           in case generate_strategic_response tc d tactics sa sd item of
                Inl e \<Rightarrow> fallback_turn
              | Inr r \<Rightarrow>
                  \<lparr>response = r, turn_decision = d, tactics_used = tactics,
                   turn_analysis = Some sa, turn_phase = phase_value phase,
                   turn_confidence =
                     (case confidence d of None \<Rightarrow> fl 0.7 | Some c \<Rightarrow> c)\<rparr>))"

section \<open>The session manager\<close>

text \<open>
  The state of \<open>AdvancedSessionManager\<close>: the registry \<open>active_sessions\<close> and the sessions
  that \<open>db.save_session\<close> has stored, both by session id. Saving is taken not to fail.
  The enhanced AI service, when the manager has one, is a parameter: it gives its decision,
  or the exception it raised.
\<close>

record manager =
  active_sessions :: "pystr \<rightharpoonup> session_data"
  saved_sessions :: "pystr \<rightharpoonup> negotiation_session"



record final_metrics =
  session_duration_minutes :: real
  message_count :: nat
  ai_message_count :: nat
  seller_message_count :: nat
  price_savings :: "int option"
  savings_percentage :: "real option"
  target_achievement_percentage :: "real option"
  messages_per_minute :: "real option"
  final_effectiveness :: real

datatype seller_response =
    HandoffTriggered pystr pystr pystr
  | SessionCompleted pystr "int option" final_metrics
  | TurnProcessed turn_result pystr

text \<open>
  The session data that \<open>create_session_from_url\<close> registers, at the time \<open>now\<close>; the
  phase is the value of \<open>NegotiationPhase.OPENING\<close>.
\<close>

definition new_session_data :: "product \<Rightarrow> negotiation_params \<Rightarrow> real \<Rightarrow> session_data" where
  "new_session_data item params now =
     \<lparr>session = \<lparr>user_params = params, status = str ''initializing'', created_at = now,
                  messages = [], outcome = None, ended_at = None, final_price = None\<rparr>,
      session_product = item,
      target_price = None,
      max_budget = None,
      current_phase = str ''opening'',
      intervention_triggers = [],
      metrics = \<lparr>messages_sent = 0, negotiation_effectiveness = 0,
                  time_to_first_response = None, confidence_history = []\<rparr>,
      start_time = None\<rparr>"

text \<open>\<open>_extract_recent_prices\<close>.\<close>

definition extract_recent_prices :: "chat_message list \<Rightarrow> int list" where
  "extract_recent_prices msgs = concat (map (\<lambda>msg. message_prices (content msg)) msgs)"

text \<open>
  \<open>_extract_final_agreed_price\<close>: the loop over \<open>reversed(messages)\<close>, as a recursion over
  the reversed list.
\<close>

fun first_agreed_price :: "chat_message list \<Rightarrow> int option" where
  "first_agreed_price [] = None"
| "first_agreed_price (msg # rest) =
     (if sender msg = str ''ai''
         \<and> any_in (map str [''accept'', ''deal'', ''agree'']) (lower (content msg))
      then (let prices = extract_recent_prices [msg]
            in if prices \<noteq> [] then Some (last prices) else first_agreed_price rest)
      else first_agreed_price rest)"

definition extract_final_agreed_price :: "chat_message list \<Rightarrow> int option" where
  "extract_final_agreed_price msgs = first_agreed_price (rev msgs)"




text \<open>
  \<open>SessionAnalytics.calculate_final_metrics\<close>. The divisions of the price metrics raise
  \<open>ZeroDivisionError\<close> on a listed price of 0 and on a listed price equal to the target;
  they are reached only when the session already has a final price other than 0.
\<close>

definition calculate_duration :: "negotiation_session \<Rightarrow> real" where
  "calculate_duration s =
     (case ended_at s of None \<Rightarrow> 0 | Some e \<Rightarrow> fl (fl (e - created_at s) / 60))"

definition calculate_final_metrics :: "session_data \<Rightarrow> exn + final_metrics" where
  "calculate_final_metrics sd =
     (let s = session sd;
          item = session_product sd;
          duration = calculate_duration s;
          n = length (messages s);
          base = \<lparr>session_duration_minutes = duration,
                  message_count = n,
                  ai_message_count = length (filter (\<lambda>m. sender m = str ''ai'') (messages s)),
                  seller_message_count =
                    length (filter (\<lambda>m. sender m = str ''seller'') (messages s)),
                  price_savings = None,
                  savings_percentage = None,
                  target_achievement_percentage = None,
                  messages_per_minute =
                    (if n > 0 then Some (fl (float_of_int (int n) / max 1 duration))
                     else None),
                  final_effectiveness = negotiation_effectiveness (metrics sd)\<rparr>
      in case final_price s of
           None \<Rightarrow> Inr base
         | Some fp \<Rightarrow>
             if fp = 0 then Inr base
             else if price item = 0 then Inl (ZeroDivisionError (str ''division by zero''))
             else if price item - params_target_price (user_params s) = 0
               then Inl (ZeroDivisionError (str ''division by zero''))
             else
               (let savings = price item - fp;
                    achievement =
                      fl (fl (real_of_int (price item - fp)
                               / real_of_int (price item - params_target_price (user_params s)))
                          * 100)
                in Inr (base\<lparr>price_savings := Some savings,
                              savings_percentage :=
                                Some (fl (fl (real_of_int savings / real_of_int (price item))
                                          * 100)),
                              target_achievement_percentage :=
                                Some (min 100 (max 0 achievement))\<rparr>)))"

text \<open>
  \<open>_complete_session\<close>, at the time \<open>now\<close>. The session object is changed in place, so
  what was written before an exception stays written. The update of the learning engine
  catches its own exceptions and writes to a file outside this state; the summary of the
  session is left out of the answer.
\<close>

definition complete_session ::
  "real \<Rightarrow> manager \<Rightarrow> pystr \<Rightarrow> session_outcome \<Rightarrow> (exn + seller_response) \<times> manager" where
  "complete_session now m session_id oc =
     (case active_sessions m session_id of
        None \<Rightarrow> (Inl (KeyError session_id), m)
      | Some sd \<Rightarrow>
          (let s1 = (session sd)\<lparr>status := str ''completed'',
                                  outcome := Some (outcome_value oc),
                                  ended_at := Some now\<rparr>;
               sd1 = sd\<lparr>session := s1\<rparr>
           in case calculate_final_metrics sd1 of
                Inl e \<Rightarrow> (Inl e, m\<lparr>active_sessions := (active_sessions m)(session_id \<mapsto> sd1)\<rparr>)
              | Inr fm \<Rightarrow>
                  (let s2 = (if oc = SUCCESS
                             then s1\<lparr>final_price := extract_final_agreed_price (messages s1)\<rparr>
                             else s1)
                   in (Inr (SessionCompleted (outcome_value oc) (final_price s2) fm),
                       m\<lparr>active_sessions := (active_sessions m)(session_id := None),
                         saved_sessions := (saved_sessions m)(session_id \<mapsto> s2)\<rparr>))))"








section \<open>Example data\<close>

text \<open>
  A product listed at 12000 and a buyer with the target 8000 and the budget 10000.
  \<open>example_session\<close> is the session data that \<open>create_session_from_url\<close> registers for
  them at the time 0, with the status and the start time that \<open>start_negotiation\<close> sets;
  as in every session of the manager, it lacks the keys \<open>target_price\<close> and \<open>max_budget\<close>
  that the decision engine reads. \<open>example_data\<close> is that session data with the two keys
  added. \<open>example_analysis f p\<close> is an analysis with the
  flexibility \<open>f\<close> and the extracted price \<open>p\<close>.
\<close>

definition example_product :: product where
  "example_product = \<lparr>price = 12000, category = str ''phone''\<rparr>"

definition example_params :: negotiation_params where
  "example_params =
     \<lparr>params_target_price = 8000, params_max_budget = 10000,
      approach = str ''diplomatic'', timeline = str ''week''\<rparr>"

definition example_session :: session_data where
  "example_session =
     (new_session_data example_product example_params 0)
       \<lparr>session := (session (new_session_data example_product example_params 0))
                     \<lparr>status := str ''active''\<rparr>,
        start_time := Some 0\<rparr>"

definition example_data :: session_data where
  "example_data = example_session\<lparr>target_price := Some 8000, max_budget := Some 10000\<rparr>"

definition example_analysis :: "real \<Rightarrow> int option \<Rightarrow> seller_analysis" where
  "example_analysis f p =
     \<lparr>sentiment = str ''neutral'',
      flexibility_score = Some f,
      urgency_level = Some (str ''medium''),
      personality = Some (str ''eager''),
      price_analysis = Some \<lparr>current_price = p, previous_prices = [],
                              trend = str ''stable'', concession_amount = 0\<rparr>,
      objections = Some [],
      buying_signals = [],
      pattern = \<lparr>avg_response_time = None, avg_message_length = None,
                  consistency = str ''unknown''\<rparr>,
      message_length = 0,
      politeness_score = fl 0.6\<rparr>"

text \<open>A message of the seller and a message of the agent, at the time 0.\<close>

definition seller_says :: "string \<Rightarrow> chat_message" where
  "seller_says s =
     \<lparr>sender = str ''seller'', content = str s, timestamp = 0, sender_type = str ''human''\<rparr>"

definition agent_says :: "string \<Rightarrow> chat_message" where
  "agent_says s =
     \<lparr>sender = str ''ai'', content = str s, timestamp = 0, sender_type = str ''ai''\<rparr>"

text \<open>
  Two text composers: one whose every composition raises, and one that always answers
  with the same text.
\<close>

definition failing_composer :: text_composer where
  "failing_composer =
     \<lparr>walkaway_response = (\<lambda>sa sd. Inl (OtherError (str ''no text''))),
      tactical_response = (\<lambda>d tactics sa sd item. Inl (OtherError (str ''no text''))),
      exploratory_response = (\<lambda>sa sd. Inl (OtherError (str ''no text'')))\<rparr>"

definition fixed_composer :: "string \<Rightarrow> text_composer" where
  "fixed_composer s =
     \<lparr>walkaway_response = (\<lambda>sa sd. Inr (str s)),
      tactical_response = (\<lambda>d tactics sa sd item. Inr (str s)),
      exploratory_response = (\<lambda>sa sd. Inr (str s))\<rparr>"

text \<open>
  Three histories: one of three messages that ends on \<open>okay deal\<close>, one of three
  messages that ends on a last word, and one that is the first message of a seller and
  names a final price.
\<close>

definition deal_history :: "chat_message list" where
  "deal_history =
     [seller_says ''I can do 9000'', agent_says ''How about 8500?'', seller_says ''okay deal'']"

definition last_history :: "chat_message list" where
  "last_history =
     [seller_says ''I can do 9000'', agent_says ''How about 8500?'',
      seller_says ''That is my last word'']"

definition final_history :: "chat_message list" where
  "final_history = [seller_says ''My final offer is 11000'']"




text \<open>
  The log of a negotiation that ends in an agreement: the seller names a price, the agent
  makes the counter offer 8,500 in the words of a template of the response generator,
  the seller agrees, and the agent accepts. \<open>agreed_manager\<close> holds a session with this
  log, created at the time 0, under the id \<open>s1\<close>.
\<close>

definition counter_offer_message :: chat_message where
  "counter_offer_message =
     \<lparr>sender = str ''ai'',
      content = str ''I appreciate your flexibility. Meeting me at '' @ [rupee]
                  @ str ''8,500 would really help my budget.'',
      timestamp = 0, sender_type = str ''ai''\<rparr>"

definition agreed_log :: "chat_message list" where
  "agreed_log =
     [seller_says ''maybe I can consider 9000'',
      counter_offer_message,
      seller_says ''okay deal'',
      agent_says ''Excellent! I accept your offer. How should we proceed with the payment and pickup?'']"

definition agreed_manager :: manager where
  "agreed_manager =
     \<lparr>active_sessions =
        [str ''s1'' \<mapsto>
           example_session\<lparr>session := (session example_session)\<lparr>messages := agreed_log\<rparr>\<rparr>],
      saved_sessions = Map.empty\<rparr>"

section \<open>The rules in the words of the spec\<close>


text \<open>
  The transition rules of the spec (section 4.2), first match wins: the closing words are
  \<open>final\<close> and \<open>last\<close>, and the first rule asks for a history without closing words and
  without a mention of a price.
\<close>

definition claimed_closing :: "chat_message list \<Rightarrow> bool" where
  "claimed_closing chat_history =
     list_ex (\<lambda>msg. contains (lower (content msg)) (str ''final'')
                      \<or> contains (lower (content msg)) (str ''last''))
       (last_n 3 chat_history)"

definition claimed_phase :: "chat_message list \<Rightarrow> seller_analysis \<Rightarrow> negotiation_phase" where
  "claimed_phase chat_history sa =
     (if length chat_history \<le> 2 \<and> \<not> claimed_closing chat_history
         \<and> \<not> price_mentioned chat_history then OPENING
      else if claimed_closing chat_history then CLOSING
      else if get_flexibility sa < fl 0.2 \<and> length chat_history > 6 then DEADLOCK
      else if price_mentioned chat_history \<and> length chat_history > 3 then BARGAINING
      else EXPLORATION)"


section \<open>Evaluation of the model\<close>

lemma str_eq_iff [simp]: "str a = str b \<longleftrightarrow> a = b"
  unfolding str_def by (simp add: inj_map_eq_map inj_on_def)

lemma normalise_numeral [simp]:
  "normalise (numeral k) m e =
     (if m < 2 ^ 52 then normalise (pred_numeral k) (2 * m) (e - 1)
      else if 2 ^ 53 \<le> m then normalise (pred_numeral k) (m / 2) (e + 1)
      else (m, e))"
  by (simp add: numeral_eq_Suc)

lemmas fl_eval = fl_def float_exponent_def round_half_even_def float_of_int_def Let_def

text \<open>The floats of the decimal literals of the code.\<close>

lemma fl_0_1: "fl 0.1 = 3602879701896397 / 36028797018963968" "fl (1 / 10) = 3602879701896397 / 36028797018963968"
  by (simp_all add: fl_eval)

lemma fl_0_2: "fl 0.2 = 3602879701896397 / 18014398509481984" "fl (1 / 5) = 3602879701896397 / 18014398509481984"
  by (simp_all add: fl_eval)

lemma fl_0_3: "fl 0.3 = 5404319552844595 / 18014398509481984" "fl (3 / 10) = 5404319552844595 / 18014398509481984"
  by (simp_all add: fl_eval)

lemma fl_0_4: "fl 0.4 = 3602879701896397 / 9007199254740992" "fl (2 / 5) = 3602879701896397 / 9007199254740992"
  by (simp_all add: fl_eval)

lemma fl_0_5: "fl 0.5 = 1 / 2" "fl (1 / 2) = 1 / 2"
  by (simp_all add: fl_eval)

lemma fl_0_6: "fl 0.6 = 5404319552844595 / 9007199254740992" "fl (3 / 5) = 5404319552844595 / 9007199254740992"
  by (simp_all add: fl_eval)

lemma fl_0_7: "fl 0.7 = 3152519739159347 / 4503599627370496" "fl (7 / 10) = 3152519739159347 / 4503599627370496"
  by (simp_all add: fl_eval)

lemma fl_0_8: "fl 0.8 = 3602879701896397 / 4503599627370496" "fl (4 / 5) = 3602879701896397 / 4503599627370496"
  by (simp_all add: fl_eval)

lemma fl_0_9: "fl 0.9 = 8106479329266893 / 9007199254740992" "fl (9 / 10) = 8106479329266893 / 9007199254740992"
  by (simp_all add: fl_eval)

lemma fl_0_95: "fl 0.95 = 4278419646001971 / 4503599627370496" "fl (19 / 20) = 4278419646001971 / 4503599627370496"
  by (simp_all add: fl_eval)

lemma fl_1_1: "fl 1.1 = 2476979795053773 / 2251799813685248" "fl (11 / 10) = 2476979795053773 / 2251799813685248"
  by (simp_all add: fl_eval)

lemmas fl_literals =
  fl_0_1 fl_0_2 fl_0_3 fl_0_4 fl_0_5 fl_0_6 fl_0_7 fl_0_8 fl_0_9 fl_0_95 fl_1_1

lemma example_target: "target_price example_data = Some 8000"
  by (simp add: example_data_def)

lemma example_budget: "max_budget example_data = Some 10000"
  by (simp add: example_data_def)

lemma example_session_keys:
  "target_price example_session = None" "max_budget example_session = None"
  by (simp_all add: example_session_def new_session_data_def)

lemma example_extracted: "extracted_price (example_analysis f p) = p"
  by (simp add: extracted_price_def example_analysis_def)

lemma example_flexibility: "get_flexibility (example_analysis f p) = f"
  by (simp add: get_flexibility_def example_analysis_def)

lemmas example_simps =
  example_target example_budget example_session_keys example_extracted example_flexibility

lemma flexibility_half_low: "\<not> fl 0.5 > fl 0.7" "\<not> fl 0.5 > fl 0.6"
  by (simp_all add: fl_literals)

text \<open>The code points of a literal text, and its lowercase, character by character.\<close>

lemma str_codes: "str (c # cs) = of_char c # str cs" "str [] = []"
  by (simp_all add: str_def)

lemma lower_codes:
  "lower (c # cs) = lower_char c @ lower cs" "lower [] = []"
  by (simp_all add: lower_def)

lemmas text_eval = str_codes lower_codes lower_char_def last_n_def any_in_def

section \<open>Properties of the decision engine\<close>

lemma counter_offer_8500:
  "calculate_counter_offer 8500 8000 (example_analysis (fl 0.9) (Some 8500)) OPENING = 7500"
proof -
  have "fl (fl (float_of_int (8500 - 8000) * fl 0.3) * fl 0.9) = 135"
    by (simp add: fl_literals) (simp add: fl_eval)
  then show ?thesis
    by (simp add: calculate_counter_offer_def Let_def example_simps py_int_def)
qed

text \<open>
  C1: the code at two inputs that break the bound of the claim. With the target 8000 and
  the budget 10000 in the session data, a seller's price of 8500 and the flexibility 0.9
  get the action \<open>counter_offer\<close> with the offer 7500, which is below the target:
  \<open>_calculate_counter_offer\<close> returns the smaller of target plus increment (here 8135) and
  the seller's price minus 1000, and nothing keeps that at or above the target when the
  seller's price is less than 1000 above it. And in the session data as the session
  manager registers it, where the engine finds neither key and reads both as 0, a
  seller's price of 9500 and the same flexibility get the action \<open>final_offer\<close> with the
  offer 0, for a buyer whose target is 8000.
\<close>

theorem counter_offer_below_target:
  "target_price example_data = Some 8000 \<and> max_budget example_data = Some 10000
   \<and> action (make_decision example_data (example_analysis (fl 0.9) (Some 8500)) OPENING
        example_product) = Some (str ''counter_offer'')
   \<and> offer (make_decision example_data (example_analysis (fl 0.9) (Some 8500)) OPENING
        example_product) = Some 7500
   \<and> (7500 :: int) < 8000
   \<and> params_target_price (user_params (session example_session)) = 8000
   \<and> action (make_decision example_session (example_analysis (fl 0.9) (Some 9500)) OPENING
        example_product) = Some (str ''final_offer'')
   \<and> offer (make_decision example_session (example_analysis (fl 0.9) (Some 9500)) OPENING
        example_product) = Some 0"
proof -
  have f: "fl 0.9 > fl 0.6" "fl 0.9 > fl 0.7"
    by (simp_all add: fl_literals)
  have z: "fl (float_of_int 0 * fl 1.1) = 0"
    by (simp add: fl_eval)
  have a: "make_decision example_data (example_analysis (fl 0.9) (Some 8500)) OPENING
        example_product
      = \<lparr>action = Some (str ''counter_offer''), offer = Some 7500,
         confidence = Some (fl 0.7),
         reasoning = Some (str ''Seller shows flexibility, room for negotiation'')\<rparr>"
    using f counter_offer_8500
    by (simp add: make_decision_def Let_def example_simps effective_price_def)
  have b: "make_decision example_session (example_analysis (fl 0.9) (Some 9500)) OPENING
        example_product
      = \<lparr>action = Some (str ''final_offer''), offer = Some 0,
         confidence = Some (fl 0.4),
         reasoning = Some (str ''Last attempt before walking away'')\<rparr>"
    using f z
    by (simp add: make_decision_def Let_def example_simps effective_price_def py_int_def)
  have c: "params_target_price (user_params (session example_session)) = 8000"
    by (simp add: example_session_def new_session_data_def example_params_def)
  show ?thesis
    unfolding a b using c by (simp add: example_simps)
qed

text \<open>
  C2: the code at two inputs that break the claim. In the session data as the session
  manager registers it for a buyer with the target 8000, an extracted seller price of 7500
  gets \<open>walk_away\<close>: the engine finds no key \<open>target_price\<close> there and compares the
  price with 0. And with the target 8000 and the budget 10000 in the session data, an
  extracted seller price of 0 is not above the target, and the decision is \<open>walk_away\<close>
  again: \<open>if not current_price\<close> takes the extracted price 0 for no price, and the engine
  decides on the listed price 12000.
\<close>

theorem low_price_not_accepted:
  "extracted_price (example_analysis (fl 0.5) (Some 7500)) = Some 7500
   \<and> params_target_price (user_params (session example_session)) = 8000
   \<and> (7500 :: int) \<le> 8000
   \<and> action (make_decision example_session (example_analysis (fl 0.5) (Some 7500)) BARGAINING
        example_product) = Some (str ''walk_away'')
   \<and> extracted_price (example_analysis (fl 0.5) (Some 0)) = Some 0
   \<and> target_price example_data = Some 8000 \<and> (0 :: int) \<le> 8000
   \<and> action (make_decision example_data (example_analysis (fl 0.5) (Some 0)) BARGAINING
        example_product) = Some (str ''walk_away'')"
proof -
  have a: "action (make_decision example_data (example_analysis (fl 0.5) (Some 0)) BARGAINING
        example_product) = Some (str ''walk_away'')"
    using flexibility_half_low
    by (simp add: make_decision_def Let_def example_simps effective_price_def
        example_product_def)
  have b: "action (make_decision example_session (example_analysis (fl 0.5) (Some 7500))
        BARGAINING example_product) = Some (str ''walk_away'')"
    using flexibility_half_low
    by (simp add: make_decision_def Let_def example_simps effective_price_def)
  have c: "params_target_price (user_params (session example_session)) = 8000"
    by (simp add: example_session_def new_session_data_def example_params_def)
  show ?thesis
    using a b c by (simp add: example_simps)
qed

text \<open>
  Where the engine does accept: a price that it decides on and that is not above the
  target it reads gets \<open>accept\<close> with the confidence 0.9 and no offer.
\<close>

lemma accept_at_or_below_target:
  assumes "effective_price sa item \<le> (case target_price sd of None \<Rightarrow> 0 | Some t \<Rightarrow> t)"
  shows "action (make_decision sd sa ph item) = Some (str ''accept'')
         \<and> confidence (make_decision sd sa ph item) = Some (fl 0.9)
         \<and> offer (make_decision sd sa ph item) = None"
  using assms by (simp add: make_decision_def Let_def)




section \<open>Properties of the phase\<close>

lemma deal_history_phase:
  "determine_negotiation_phase deal_history sa = CLOSING"
  by (simp add: determine_negotiation_phase_def Let_def deal_history_def seller_says_def
      agent_says_def closing_keywords_def text_eval)

text \<open>
  C4, as the claim states it, fails in three ways. A history of three messages that ends
  on \<open>okay deal\<close> is in the phase CLOSING for the code, whose closing words are \<open>deal\<close>,
  \<open>final\<close>, \<open>accept\<close>, \<open>agree\<close>, \<open>done\<close> and \<open>sold\<close>; by the rules of the claim it is in
  EXPLORATION. A history of three messages that ends on a last word is in EXPLORATION for
  the code, for which \<open>last\<close> is no closing word; by the claim it is in CLOSING. And a
  first message with a final offer is in OPENING for the code, which looks at nothing but
  the count for a history of at most two messages; by the claim it is in CLOSING.
\<close>

theorem phase_rules_counterexample:
  "determine_negotiation_phase deal_history (example_analysis (fl 0.5) None) = CLOSING
   \<and> claimed_phase deal_history (example_analysis (fl 0.5) None) = EXPLORATION
   \<and> determine_negotiation_phase last_history (example_analysis (fl 0.5) None) = EXPLORATION
   \<and> claimed_phase last_history (example_analysis (fl 0.5) None) = CLOSING
   \<and> determine_negotiation_phase final_history (example_analysis (fl 0.5) None) = OPENING
   \<and> claimed_phase final_history (example_analysis (fl 0.5) None) = CLOSING"
proof -
  have f: "\<not> fl 0.5 < fl 0.2"
    by (simp add: fl_literals)
  have a: "claimed_phase deal_history (example_analysis (fl 0.5) None) = EXPLORATION"
    using f
    by (simp add: claimed_phase_def claimed_closing_def price_mentioned_def deal_history_def
        seller_says_def agent_says_def example_flexibility rupee_def text_eval)
  have b: "determine_negotiation_phase last_history (example_analysis (fl 0.5) None)
      = EXPLORATION"
    using f
    by (simp add: determine_negotiation_phase_def Let_def price_mentioned_def
        last_history_def seller_says_def agent_says_def closing_keywords_def
        example_flexibility rupee_def text_eval)
  have c: "claimed_phase last_history (example_analysis (fl 0.5) None) = CLOSING"
    by (simp add: claimed_phase_def claimed_closing_def price_mentioned_def last_history_def
        seller_says_def agent_says_def rupee_def text_eval)
  have d: "determine_negotiation_phase final_history (example_analysis (fl 0.5) None)
      = OPENING"
    by (simp add: determine_negotiation_phase_def Let_def final_history_def)
  have e: "claimed_phase final_history (example_analysis (fl 0.5) None) = CLOSING"
    by (simp add: claimed_phase_def claimed_closing_def price_mentioned_def
        final_history_def seller_says_def rupee_def text_eval)
  show ?thesis
    using deal_history_phase a b c d e by simp
qed

text \<open>
  C4, amended. The phase is a function of the history and the analysis of the turn, by
  these rules, the first that matches: a history of at most 2 messages is in OPENING,
  whatever its words; if one of \<open>deal\<close>, \<open>final\<close>, \<open>accept\<close>, \<open>agree\<close>, \<open>done\<close>, \<open>sold\<close> occurs
  (as a piece of text, also inside a word) in the lowercased last 3 messages, joined by
  spaces, the phase is CLOSING; with a flexibility under 0.2 and more than 6 messages it
  is DEADLOCK; if one of the last 3 messages has \<open>price\<close> in its lowercased text or a
  rupee sign in its text, and there are more than 3 messages, it is BARGAINING; otherwise
  it is EXPLORATION.
\<close>

theorem phase_rules:
  "closing_keywords = map str [''deal'', ''final'', ''accept'', ''agree'', ''done'', ''sold'']
   \<and> (length h \<le> 2 \<longrightarrow> determine_negotiation_phase h sa = OPENING)
   \<and> (2 < length h
        \<and> any_in closing_keywords (join_space (map (\<lambda>msg. lower (content msg)) (last_n 3 h)))
       \<longrightarrow> determine_negotiation_phase h sa = CLOSING)
   \<and> (2 < length h
        \<and> \<not> any_in closing_keywords (join_space (map (\<lambda>msg. lower (content msg)) (last_n 3 h)))
        \<and> get_flexibility sa < fl 0.2 \<and> 6 < length h
       \<longrightarrow> determine_negotiation_phase h sa = DEADLOCK)
   \<and> (2 < length h
        \<and> \<not> any_in closing_keywords (join_space (map (\<lambda>msg. lower (content msg)) (last_n 3 h)))
        \<and> \<not> (get_flexibility sa < fl 0.2 \<and> 6 < length h)
        \<and> price_mentioned h \<and> 3 < length h
       \<longrightarrow> determine_negotiation_phase h sa = BARGAINING)
   \<and> (2 < length h
        \<and> \<not> any_in closing_keywords (join_space (map (\<lambda>msg. lower (content msg)) (last_n 3 h)))
        \<and> \<not> (get_flexibility sa < fl 0.2 \<and> 6 < length h)
        \<and> \<not> (price_mentioned h \<and> 3 < length h)
       \<longrightarrow> determine_negotiation_phase h sa = EXPLORATION)"
  by (simp add: determine_negotiation_phase_def Let_def closing_keywords_def)

theorem phase_rules_witness:
  "2 < length deal_history
   \<and> any_in closing_keywords
        (join_space (map (\<lambda>msg. lower (content msg)) (last_n 3 deal_history)))
   \<and> determine_negotiation_phase deal_history (example_analysis (fl 0.5) None) = CLOSING
   \<and> length final_history \<le> 2
   \<and> determine_negotiation_phase final_history (example_analysis (fl 0.5) None) = OPENING"
proof -
  have a: "2 < length deal_history" "length final_history \<le> 2"
    by (simp_all add: deal_history_def final_history_def)
  have b: "any_in closing_keywords
        (join_space (map (\<lambda>msg. lower (content msg)) (last_n 3 deal_history)))"
    by (simp add: deal_history_def seller_says_def agent_says_def closing_keywords_def
        text_eval)
  from phase_rules[of deal_history "example_analysis (fl 0.5) None"]
       phase_rules[of final_history "example_analysis (fl 0.5) None"] a b
  show ?thesis by simp
qed

section \<open>Properties of the session manager\<close>








lemma complete_session_success:
  assumes "active_sessions m sid = Some sd" and "final_price (session sd) = None"
  shows "map_option final_price (saved_sessions (snd (complete_session now m sid SUCCESS)) sid)
           = Some (extract_final_agreed_price (messages (session sd)))
         \<and> map_option outcome (saved_sessions (snd (complete_session now m sid SUCCESS)) sid)
           = Some (Some (str ''success''))
         \<and> map_option status (saved_sessions (snd (complete_session now m sid SUCCESS)) sid)
           = Some (str ''completed'')
         \<and> active_sessions (snd (complete_session now m sid SUCCESS)) sid = None"
  using assms
  by (simp add: complete_session_def calculate_final_metrics_def Let_def)

lemma complete_session_failure:
  assumes "active_sessions m sid = Some sd" and "final_price (session sd) = None"
    and "oc \<noteq> SUCCESS"
  shows "map_option final_price (saved_sessions (snd (complete_session now m sid oc)) sid)
           = Some None"
  using assms
  by (simp add: complete_session_def calculate_final_metrics_def Let_def)

lemma counter_offer_message_prices:
  "extract_recent_prices [counter_offer_message] = [8500]"
  by (simp add: extract_recent_prices_def message_prices_def findall_prices_def
      counter_offer_message_def parse_price_def rupee_def is_space_def is_digit_def
      digit_zero_def digit_value_def str_codes)

lemma agreed_log_price: "extract_final_agreed_price agreed_log = None"
  by (simp add: extract_final_agreed_price_def agreed_log_def counter_offer_message_def
      seller_says_def agent_says_def extract_recent_prices_def message_prices_def
      findall_prices_def rupee_def any_in_def str_codes lower_codes lower_char_def)

text \<open>
  C7: the code at an input that breaks the claim. The session of \<open>agreed_manager\<close> has the
  log of an agreement: a counter offer of the agent at 8,500, the seller's \<open>okay deal\<close>, and
  the agent's acceptance. Completed with the outcome SUCCESS, it is stored with no final
  price at all, where the claim says 8500: \<open>_extract_final_agreed_price\<close> looks for the
  latest message of the agent that has one of \<open>accept\<close>, \<open>deal\<close>, \<open>agree\<close> in it and a price
  behind a rupee sign; the acceptance names no price, and the counter offer has none of
  the three words.
\<close>

theorem agreed_price_not_recorded:
  "extract_recent_prices [counter_offer_message] = [8500]
   \<and> map_option outcome
        (saved_sessions (snd (complete_session 60 agreed_manager (str ''s1'') SUCCESS))
           (str ''s1'')) = Some (Some (str ''success''))
   \<and> map_option final_price
        (saved_sessions (snd (complete_session 60 agreed_manager (str ''s1'') SUCCESS))
           (str ''s1'')) = Some None"
proof -
  have a: "active_sessions agreed_manager (str ''s1'')
      = Some (example_session\<lparr>session := (session example_session)\<lparr>messages := agreed_log\<rparr>\<rparr>)"
    by (simp add: agreed_manager_def)
  have b: "final_price (session (example_session\<lparr>session :=
      (session example_session)\<lparr>messages := agreed_log\<rparr>\<rparr>)) = None"
    by (simp add: example_session_def new_session_data_def)
  from complete_session_success[OF a b, of 60] agreed_log_price counter_offer_message_prices
  show ?thesis by simp
qed

section \<open>Properties of the turn of the engine\<close>

lemma make_decision_actions:
  "action (make_decision sd sa ph item)
     \<in> {Some (str ''accept''), Some (str ''counter_offer''),
        Some (str ''accept_with_conditions''), Some (str ''continue''),
        Some (str ''final_offer''), Some (str ''walk_away'')}"
  by (simp add: make_decision_def Let_def)

lemma empty_message_flexibility: "assess_flexibility [] chat_history = fl 0.5"
  by (simp add: assess_flexibility_def Let_def count_in_def flexibility_high_def
      flexibility_low_def count_price_concessions_def str_codes fl_literals)

lemma empty_message_price:
  "analyze_price_movement [] chat_history
     = \<lparr>current_price = None, previous_prices = [], trend = str ''stable'',
        concession_amount = 0\<rparr>"
  by (simp add: analyze_price_movement_def findall_prices_def)

lemma opening_decision:
  "snd (snd (analyze_and_decide sd [] [] item)) = make_decision sd
     (analyze_seller_message [] [] sd) OPENING item"
  by (simp add: analyze_and_decide_def Let_def determine_negotiation_phase_def)

lemma opening_effective_price:
  "effective_price (analyze_seller_message [] [] sd) item = price item"
  by (simp add: effective_price_def extracted_price_def analyze_seller_message_def Let_def
      lower_codes empty_message_price)

lemma opening_flexibility: "get_flexibility (analyze_seller_message [] [] sd) = fl 0.5"
  by (simp add: get_flexibility_def analyze_seller_message_def Let_def lower_codes
      empty_message_flexibility)

lemma opening_walk_away:
  "action (snd (snd (analyze_and_decide example_session [] [] example_product)))
     = Some (str ''walk_away'')"
  "action (snd (snd (analyze_and_decide example_data [] [] example_product)))
     = Some (str ''walk_away'')"
  using flexibility_half_low
  by (simp_all add: opening_decision make_decision_def Let_def opening_effective_price
      opening_flexibility example_simps example_product_def)


lemma opening_accept:
  "action (snd (snd (analyze_and_decide example_data [] []
      (example_product\<lparr>price := 7000\<rparr>)))) = Some (str ''accept'')"
  by (simp add: opening_decision make_decision_def Let_def opening_effective_price
      example_simps)



text \<open>
  C10: \<open>process_negotiation_turn\<close> has a result for every composer, session data,
  message, history and product; no exception leaves it. When the response generator
  raises, the result is the fallback, whose decision has the action \<open>pause\<close> and the
  confidence 0.5, with no tactics and the phase \<open>exploration\<close>; otherwise it is the result
  of the five steps. The action \<open>pause\<close> is none of the actions of the decision engine.
  A turn whose decision is \<open>accept\<close> always ends in the fallback: the response generator
  calls its acceptance method with one argument too many.
\<close>

theorem turn_absorbs_errors:
  assumes "analyze_and_decide sd msg h item = (sa, ph, d)"
  shows "(generate_strategic_response tc d (select_tactics d sa ph sd) sa sd item = Inl e
            \<longrightarrow> process_negotiation_turn tc sd msg h item = fallback_turn)
         \<and> (generate_strategic_response tc d (select_tactics d sa ph sd) sa sd item = Inr r
            \<longrightarrow> process_negotiation_turn tc sd msg h item
                = \<lparr>response = r, turn_decision = d,
                   tactics_used = select_tactics d sa ph sd, turn_analysis = Some sa,
                   turn_phase = phase_value ph,
                   turn_confidence = (case confidence d of None \<Rightarrow> fl 0.7 | Some c \<Rightarrow> c)\<rparr>)
         \<and> (action d = Some (str ''accept'')
            \<longrightarrow> process_negotiation_turn tc sd msg h item = fallback_turn)
         \<and> action d \<noteq> Some (str ''pause'')
         \<and> action (turn_decision fallback_turn) = Some (str ''pause'')
         \<and> confidence (turn_decision fallback_turn) = Some (fl 0.5)
         \<and> turn_confidence fallback_turn = fl 0.5
         \<and> tactics_used fallback_turn = []
         \<and> turn_phase fallback_turn = str ''exploration''"
proof -
  have d: "d = make_decision sd sa ph item"
    using assms by (auto simp add: analyze_and_decide_def Let_def)
  have p: "action d \<noteq> Some (str ''pause'')"
    using make_decision_actions[of sd sa ph item] unfolding d by auto
  show ?thesis
    using assms p
    by (simp add: process_negotiation_turn_def Let_def generate_strategic_response_def
        fallback_turn_def)
qed

theorem turn_absorbs_errors_witness:
  "process_negotiation_turn failing_composer example_session [] [] example_product
     = fallback_turn
   \<and> action (snd (snd (analyze_and_decide example_data [] []
        (example_product\<lparr>price := 7000\<rparr>)))) = Some (str ''accept'')
   \<and> process_negotiation_turn (fixed_composer ''Could you tell me more?'') example_data [] []
        (example_product\<lparr>price := 7000\<rparr>) = fallback_turn
   \<and> action (turn_decision fallback_turn) = Some (str ''pause'')"
proof -
  let ?a = "analyze_and_decide example_session [] [] example_product"
  let ?b = "analyze_and_decide example_data [] [] (example_product\<lparr>price := 7000\<rparr>)"
  have a: "?a = (fst ?a, fst (snd ?a), snd (snd ?a))"
    and b: "?b = (fst ?b, fst (snd ?b), snd (snd ?b))"
    by simp_all
  have g: "generate_strategic_response failing_composer (snd (snd ?a))
      (select_tactics (snd (snd ?a)) (fst ?a) (fst (snd ?a)) example_session) (fst ?a)
      example_session example_product = Inl (OtherError (str ''no text''))"
    using opening_walk_away(1)
    by (simp add: generate_strategic_response_def failing_composer_def)
  from turn_absorbs_errors[OF a, of failing_composer "OtherError (str ''no text'')"]
       turn_absorbs_errors[OF b, of "fixed_composer ''Could you tell me more?''"]
       g opening_accept
  show ?thesis by simp
qed

section \<open>Properties of the strategy selector\<close>

lemma phase_tactics_length: "length (phase_tactics sa ph) \<le> 2"
  by (simp add: phase_tactics_def)

lemma select_tactics_filter:
  "select_tactics d sa ph sd =
     filter (\<lambda>t. effectiveness t (case personality sa of None \<Rightarrow> str ''flexible'' | Some p \<Rightarrow> p) > fl 0.4)
       (phase_tactics sa ph)"
proof -
  let ?P = "\<lambda>t. effectiveness t (case personality sa of None \<Rightarrow> str ''flexible'' | Some p \<Rightarrow> p) > fl 0.4"
  have "length (filter ?P (phase_tactics sa ph)) \<le> length (phase_tactics sa ph)"
    by (rule length_filter_le)
  then have "length (filter ?P (phase_tactics sa ph)) \<le> 3"
    using phase_tactics_length[of sa ph] by linarith
  then show ?thesis
    by (simp add: select_tactics_def Let_def)
qed

text \<open>
  C9: for every decision, analysis, phase and session data, \<open>select_tactics\<close> returns at
  most 3 tactics; they are candidates of the phase, in the order of the candidates, so
  the first of them is the first candidate that was kept; each of them has an
  effectiveness over 0.4 for the personality of the analysis (\<open>flexible\<close> when the analysis
  has none); and no candidate with such an effectiveness is dropped.
\<close>

theorem select_tactics_capped_ordered_effective:
  "length (select_tactics d sa ph sd) \<le> 3
   \<and> subseq (select_tactics d sa ph sd) (phase_tactics sa ph)
   \<and> (\<forall>t \<in> set (select_tactics d sa ph sd).
         effectiveness t (case personality sa of None \<Rightarrow> str ''flexible'' | Some p \<Rightarrow> p) > fl 0.4)
   \<and> (\<forall>t \<in> set (phase_tactics sa ph).
         effectiveness t (case personality sa of None \<Rightarrow> str ''flexible'' | Some p \<Rightarrow> p) > fl 0.4
         \<longrightarrow> t \<in> set (select_tactics d sa ph sd))"
proof -
  have "length (select_tactics d sa ph sd) \<le> length (phase_tactics sa ph)"
    unfolding select_tactics_filter by (rule length_filter_le)
  then have "length (select_tactics d sa ph sd) \<le> 3"
    using phase_tactics_length[of sa ph] by linarith
  moreover have "subseq (select_tactics d sa ph sd) (phase_tactics sa ph)"
    unfolding select_tactics_filter by (rule subseq_filter_left)
  ultimately show ?thesis
    by (simp add: select_tactics_filter)
qed

theorem select_tactics_capped_ordered_effective_witness:
  "select_tactics \<lparr>action = None, offer = None, confidence = None, reasoning = None\<rparr>
      ((example_analysis (fl 0.5) None)\<lparr>urgency_level := Some (str ''high'')\<rparr>) OPENING example_session
     = [ANCHORING, URGENCY]
   \<and> select_tactics \<lparr>action = None, offer = None, confidence = None, reasoning = None\<rparr>
      ((example_analysis (fl 0.5) None)\<lparr>urgency_level := Some (str ''high''),
         personality := Some (str ''firm'')\<rparr>) OPENING example_session
     = []
   \<and> effectiveness ANCHORING (str ''eager'') > fl 0.4
   \<and> effectiveness URGENCY (str ''eager'') > fl 0.4
   \<and> \<not> effectiveness ANCHORING (str ''firm'') > fl 0.4"
  using select_tactics_capped_ordered_effective
    [of "\<lparr>action = None, offer = None, confidence = None, reasoning = None\<rparr>"
        "(example_analysis (fl 0.5) None)\<lparr>urgency_level := Some (str ''high'')\<rparr>" OPENING
        example_session]
  by (simp add: select_tactics_filter phase_tactics_def example_analysis_def
      effectiveness_def tactic_effectiveness_def fl_literals)

end
